theory Spec2Isabelle
  imports Main "HOL-Library.Word"
begin

section \<open>JavaScript values, failures and evaluations\<close>

text \<open>
  The runtime values the parser engine of \<^verbatim>\<open>src/unnamed/part_001\<close> moves around.
  \<open>JObject\<close> is a plain object whose prototype is \<^verbatim>\<open>Object.prototype\<close> (an object
  literal, a result of \<^verbatim>\<open>JSON.parse\<close>): the list of its own properties, all of them
  enumerable data properties, in the order of their creation. A property whose value is
  \<open>JUndefined\<close> is an own property all the same (\<^verbatim>\<open>'a' in {a: undefined}\<close> is true),
  which is what tells \<^verbatim>\<open>{a: undefined, b: 2}\<close> from \<^verbatim>\<open>{b: 2}\<close>. \<open>JFunction name\<close>
  is the built-in function that is the member \<open>name\<close> of \<^verbatim>\<open>Object.prototype\<close>, and
  \<open>JObjectPrototype\<close> is \<^verbatim>\<open>Object.prototype\<close> itself: the values a plain object
  inherits. Numbers are modelled by the integers; objects without a prototype
  (\<^verbatim>\<open>Object.create(null)\<close>) and symbol keys are not modelled.
\<close>

datatype jsval =
    JUndefined
  | JNull
  | JBool bool
  | JNumber int
  | JString string
  | JArray "jsval list"
  | JObject "(string \<times> jsval) list"
  | JFunction string
  | JObjectPrototype

text \<open>
  Every failure of the engine is a \<^verbatim>\<open>throw new Error(message)\<close>; the constructors
  below are the messages of the source, one per throw site:
  \<^item> \<open>ValueRequired\<close>: \<^verbatim>\<open>value is required, got ...\<close> (the spec's MissingRequiredValue);
  \<^item> \<open>NotMatchValidator\<close>: \<^verbatim>\<open>do not match validator ...\<close> (ValidationFailed);
  \<^item> \<open>ExpectedArray\<close>, \<open>ExpectedPlainObject\<close>: \<^verbatim>\<open>expected a array, got ...\<close> and
    \<^verbatim>\<open>expected a plain object, got ...\<close> (TypeMismatch);
  \<^item> \<open>UnknownSchemaType\<close>: \<^verbatim>\<open>unknown schema type "..."\<close> (UnsupportedSchemaType);
  \<^item> \<open>LeafError\<close>: whatever a caller-supplied function throws.
\<close>

datatype error =
    ValueRequired
  | NotMatchValidator
  | ExpectedArray jsval
  | ExpectedPlainObject jsval
  | UnknownSchemaType
  | LeafError string

text \<open>
  A computation returns a value or throws, and along the way it evaluates caller-supplied
  functions. The second component records those evaluations in order (the name of the
  function and its argument), so that "is never evaluated" and "is computed once" are
  statements about the model.
\<close>

type_synonym event = "string \<times> jsval"

type_synonym 'a eff = "(error + 'a) \<times> event list"

definition ret :: "'a \<Rightarrow> 'a eff" where
  "ret v = (Inr v, [])"

definition throw :: "error \<Rightarrow> 'a eff" where
  "throw e = (Inl e, [])"

text \<open>Sequencing: the second computation runs only when the first returned.\<close>

definition bind_eff :: "'a eff \<Rightarrow> ('a \<Rightarrow> 'b eff) \<Rightarrow> 'b eff" where
  "bind_eff m k =
     (case m of
        (Inl e, l) \<Rightarrow> (Inl e, l)
      | (Inr v, l) \<Rightarrow> (case k v of (r, l') \<Rightarrow> (r, l @ l')))"

text \<open>\<^verbatim>\<open>try { m } catch (e) { h(e) }\<close>: the handler runs only when \<open>m\<close> threw.\<close>

definition catch :: "'a eff \<Rightarrow> (error \<Rightarrow> 'a eff) \<Rightarrow> 'a eff" where
  "catch m h =
     (case m of
        (Inl e, l) \<Rightarrow> (case h e of (r, l') \<Rightarrow> (r, l @ l'))
      | (Inr v, l) \<Rightarrow> (Inr v, l))"

text \<open>JavaScript's truthiness, as \<^verbatim>\<open>!func(value)\<close> reads it.\<close>

fun truthy :: "jsval \<Rightarrow> bool" where
  "truthy JUndefined = False"
| "truthy JNull = False"
| "truthy (JBool b) = b"
| "truthy (JNumber n) = (n \<noteq> 0)"
| "truthy (JString s) = (s \<noteq> [])"
| "truthy (JArray xs) = True"
| "truthy (JObject kvs) = True"
| "truthy (JFunction name) = True"
| "truthy JObjectPrototype = True"

section \<open>Parser\<close>

text \<open>
  \<^verbatim>\<open>class Parser\<close>: the fields \<^verbatim>\<open>func\<close>, \<^verbatim>\<open>required\<close> and \<^verbatim>\<open>default\<close> of the
  instance behind the callable Proxy the constructor returns.
\<close>

record Parser =
  func :: "jsval \<Rightarrow> jsval eff"
  required :: bool
  default_val :: jsval

text \<open>
  The constructor's second argument after destructuring
  \<^verbatim>\<open>{ required = false, default: _default } = {}\<close>; \<open>no_options\<close> is the omitted
  argument (or \<^verbatim>\<open>{}\<close>).
\<close>

record options =
  opt_required :: bool
  opt_default :: jsval

definition no_options :: options where
  "no_options = \<lparr>opt_required = False, opt_default = JUndefined\<rparr>"

text \<open>
  \<^verbatim>\<open>this.default = _default !== undefined ? func(_default) : undefined\<close>: the
  constructor evaluates \<^verbatim>\<open>func\<close> on the raw default, and throws when that throws.
\<close>

definition Parser_new :: "(jsval \<Rightarrow> jsval eff) \<Rightarrow> options \<Rightarrow> Parser eff" where
  "Parser_new f opts =
     (if opt_default opts \<noteq> JUndefined
      then bind_eff (f (opt_default opts))
             (\<lambda>d. ret \<lparr>func = f, required = opt_required opts, default_val = d\<rparr>)
      else ret \<lparr>func = f, required = opt_required opts, default_val = JUndefined\<rparr>)"

text \<open>\<^verbatim>\<open>call(value)\<close>, which is what applying a Parser does.\<close>

definition call :: "Parser \<Rightarrow> jsval \<Rightarrow> jsval eff" where
  "call p v =
     (let v = (if v = JUndefined then default_val p else v) in
      if v = JUndefined
      then (if required p then throw ValueRequired else ret JUndefined)
      else func p v)"

text \<open>
  The combinators. Each is \<^verbatim>\<open>new Parser(...)\<close> with no second argument; \<^verbatim>\<open>this(...)\<close>
  inside them is the receiver's \<open>call\<close>.
\<close>

definition Parser_parse :: "Parser \<Rightarrow> (jsval \<Rightarrow> jsval eff) \<Rightarrow> Parser eff" where
  "Parser_parse this f = Parser_new (\<lambda>v. bind_eff (call this v) f) no_options"

definition Parser_validate :: "Parser \<Rightarrow> (jsval \<Rightarrow> jsval eff) \<Rightarrow> Parser eff" where
  "Parser_validate this f =
     Parser_new
       (\<lambda>v. bind_eff (call this v)
          (\<lambda>v. bind_eff (f v)
             (\<lambda>b. if \<not> truthy b then throw NotMatchValidator else ret v)))
       no_options"

definition Parser_or :: "Parser \<Rightarrow> (jsval \<Rightarrow> jsval eff) \<Rightarrow> Parser eff" where
  "Parser_or this f =
     Parser_new (\<lambda>v. catch (call this v) (\<lambda>e. f v)) no_options"

section \<open>ArrayParser and ObjectParser\<close>

text \<open>
  \<^verbatim>\<open>array.map(func)\<close> with a callback that may throw: the entries are visited in
  order and the first throw ends the loop. (The callback is a Parser, whose \<open>call\<close>
  reads its first argument only, so the index and the array that \<^verbatim>\<open>map\<close> also passes
  are not modelled; neither are holes of a sparse array.)
\<close>

fun array_map :: "('a \<Rightarrow> 'b eff) \<Rightarrow> 'a list \<Rightarrow> 'b list eff" where
  "array_map f [] = ret []"
| "array_map f (x # xs) =
     bind_eff (f x) (\<lambda>y. bind_eff (array_map f xs) (\<lambda>ys. ret (y # ys)))"

definition ArrayParser_new :: "Parser \<Rightarrow> options \<Rightarrow> Parser eff" where
  "ArrayParser_new f opts =
     Parser_new
       (\<lambda>array. case array of
          JArray xs \<Rightarrow> bind_eff (array_map (call f) xs) (\<lambda>ys. ret (JArray ys))
        | _ \<Rightarrow> throw (ExpectedArray array))
       opts"

text \<open>
  The members of \<^verbatim>\<open>Object.prototype\<close> (those of ECMAScript and of its Annex B, as
  in Node). \<open>objectProto key\<close> is \<^verbatim>\<open>Object.prototype[key]\<close>: a built-in function
  for every member but \<^verbatim>\<open>__proto__\<close>, an accessor that yields the prototype of the
  object it is read from, hence \<^verbatim>\<open>null\<close> on \<^verbatim>\<open>Object.prototype\<close>.
\<close>

definition objectProto_functions :: "string list" where
  "objectProto_functions =
     [''constructor'', ''__defineGetter__'', ''__defineSetter__'', ''hasOwnProperty'',
      ''__lookupGetter__'', ''__lookupSetter__'', ''isPrototypeOf'',
      ''propertyIsEnumerable'', ''toString'', ''valueOf'', ''toLocaleString'']"

definition objectProto :: "string \<Rightarrow> jsval" where
  "objectProto key =
     (if key = ''__proto__'' then JNull
      else if key \<in> set objectProto_functions then JFunction key
      else JUndefined)"

text \<open>
  Property access on a plain object. \<^verbatim>\<open>object[key]\<close> is the own property when there
  is one; otherwise the read goes to \<^verbatim>\<open>Object.prototype\<close>: \<^verbatim>\<open>__proto__\<close> reads as
  \<^verbatim>\<open>Object.prototype\<close> itself, a member reads as its function, and any other key
  as \<^verbatim>\<open>undefined\<close>. \<^verbatim>\<open>object[key] = v\<close>, where it happens below, overwrites an own
  property in place or creates one, which is then the last created.
\<close>

definition get_prop :: "(string \<times> jsval) list \<Rightarrow> string \<Rightarrow> jsval" where
  "get_prop object key =
     (case map_of object key of
        Some v \<Rightarrow> v
      | None \<Rightarrow> if key = ''__proto__'' then JObjectPrototype else objectProto key)"

definition hasOwnProperty :: "(string \<times> 'a) list \<Rightarrow> string \<Rightarrow> bool" where
  "hasOwnProperty object key = (key \<in> set (map fst object))"

fun assignValue :: "(string \<times> 'a) list \<Rightarrow> string \<Rightarrow> 'a \<Rightarrow> (string \<times> 'a) list" where
  "assignValue [] key v = [(key, v)]"
| "assignValue ((k, w) # rest) key v =
     (if k = key then (k, v) # rest else (k, w) # assignValue rest key v)"

text \<open>
  The order in which \<^verbatim>\<open>for ... in\<close> and \<^verbatim>\<open>Object.keys\<close> visit own properties: the
  keys that are array indices (the canonical decimal numerals below \<^verbatim>\<open>2 ** 32 - 1\<close>)
  first, in ascending numeric order, then the other keys in the order of creation.
\<close>

definition arrayIndex :: "string \<Rightarrow> nat" where
  "arrayIndex s = foldl (\<lambda>n c. 10 * n + (of_char c - 48)) 0 s"

definition isArrayIndex :: "string \<Rightarrow> bool" where
  "isArrayIndex s =
     (s \<noteq> [] \<and> list_all (\<lambda>c. c \<in> set ''0123456789'') s
      \<and> (s = ''0'' \<or> hd s \<noteq> CHR ''0'') \<and> arrayIndex s < 2 ^ 32 - 1)"

definition enumeration :: "(string \<times> 'a) list \<Rightarrow> (string \<times> 'a) list" where
  "enumeration object =
     sort_key (\<lambda>kv. arrayIndex (fst kv)) (filter (\<lambda>kv. isArrayIndex (fst kv)) object)
     @ filter (\<lambda>kv. \<not> isArrayIndex (fst kv)) object"

text \<open>
  The plain objects of the model, as \<^verbatim>\<open>lodash.isPlainObject\<close> sees them (the
  prototype of \<^verbatim>\<open>Object.prototype\<close> is \<^verbatim>\<open>null\<close>, which makes it plain), with
  \<^verbatim>\<open>object[key]\<close> and the keys \<^verbatim>\<open>lodash.keysIn\<close> lists for each: the members of
  \<^verbatim>\<open>Object.prototype\<close> are not enumerable.
\<close>

definition isPlainObject :: "jsval \<Rightarrow> bool" where
  "isPlainObject v = (case v of JObject kvs \<Rightarrow> True | JObjectPrototype \<Rightarrow> True | _ \<Rightarrow> False)"

definition object_get :: "jsval \<Rightarrow> string \<Rightarrow> jsval" where
  "object_get object key =
     (case object of
        JObject kvs \<Rightarrow> get_prop kvs key
      | JObjectPrototype \<Rightarrow> objectProto key
      | _ \<Rightarrow> JUndefined)"

definition keysIn :: "jsval \<Rightarrow> string list" where
  "keysIn object = (case object of JObject kvs \<Rightarrow> map fst (enumeration kvs) | _ \<Rightarrow> [])"

text \<open>
  \<^verbatim>\<open>lodash.mapValues(object, iteratee)\<close>: starting from \<^verbatim>\<open>result = {}\<close>, every own
  property, in enumeration order, gets \<^verbatim>\<open>result[key] = iteratee(value, key)\<close> (an own
  property, also for the key \<^verbatim>\<open>__proto__\<close>: lodash defines it). A value the iteratee
  returns is stored whatever it is, \<^verbatim>\<open>undefined\<close> included.
\<close>

fun mapValues_from ::
  "(string \<times> 'a) list \<Rightarrow> ('a \<Rightarrow> string \<Rightarrow> 'b eff) \<Rightarrow> (string \<times> 'b) list
     \<Rightarrow> (string \<times> 'b) list eff" where
  "mapValues_from [] iteratee result = ret result"
| "mapValues_from ((key, v) # rest) iteratee result =
     bind_eff (iteratee v key)
       (\<lambda>r. mapValues_from rest iteratee (assignValue result key r))"

definition mapValues ::
  "(string \<times> 'a) list \<Rightarrow> ('a \<Rightarrow> string \<Rightarrow> 'b eff) \<Rightarrow> (string \<times> 'b) list eff" where
  "mapValues object iteratee = mapValues_from (enumeration object) iteratee []"

text \<open>
  The two objects the transform of \<^verbatim>\<open>ObjectParser\<close> holds: its argument
  \<^verbatim>\<open>object\<close> and its local \<^verbatim>\<open>picked\<close>, the fresh object \<^verbatim>\<open>mapValues\<close> returned.
\<close>

record object_frame =
  frame_object :: jsval
  frame_picked :: "(string \<times> jsval) list"

text \<open>
  \<^verbatim>\<open>lodash.defaults(picked, object)\<close>: for every key of \<^verbatim>\<open>object\<close> in enumeration
  order, with \<^verbatim>\<open>value = picked[key]\<close>,
  \<^verbatim>\<open>if (value === undefined || (eq(value, objectProto[key]) && !hasOwnProperty.call(picked, key))) picked[key] = object[key]\<close>.
  Every write goes to \<^verbatim>\<open>picked\<close>, which is also what is returned. An own
  \<^verbatim>\<open>__proto__\<close> of \<^verbatim>\<open>object\<close> is never copied to a \<^verbatim>\<open>picked\<close> that does not own
  the key: \<^verbatim>\<open>picked['__proto__']\<close> is then \<^verbatim>\<open>Object.prototype\<close>, which is neither
  \<^verbatim>\<open>undefined\<close> nor \<^verbatim>\<open>Object.prototype['__proto__']\<close>.
\<close>

fun defaults_from :: "string list \<Rightarrow> object_frame \<Rightarrow> object_frame" where
  "defaults_from [] st = st"
| "defaults_from (key # props) st =
     defaults_from props
       (let value = get_prop (frame_picked st) key in
        if value = JUndefined
           \<or> (value = objectProto key \<and> \<not> hasOwnProperty (frame_picked st) key)
        then st\<lparr>frame_picked :=
                  assignValue (frame_picked st) key (object_get (frame_object st) key)\<rparr>
        else st)"

definition defaults :: "object_frame \<Rightarrow> object_frame" where
  "defaults st = defaults_from (keysIn (frame_object st)) st"

text \<open>
  The transform of \<^verbatim>\<open>ObjectParser\<close>, returning the two objects as they are when it
  returns; what the Parser yields is \<^verbatim>\<open>picked\<close>.
\<close>

definition ObjectParser_transform :: "(string \<times> Parser) list \<Rightarrow> jsval \<Rightarrow> object_frame eff" where
  "ObjectParser_transform keyToFunc object =
     (if \<not> isPlainObject object then throw (ExpectedPlainObject object)
      else bind_eff (mapValues keyToFunc (\<lambda>func key. call func (object_get object key)))
             (\<lambda>picked. ret (defaults \<lparr>frame_object = object, frame_picked = picked\<rparr>)))"

definition ObjectParser_new :: "(string \<times> Parser) list \<Rightarrow> options \<Rightarrow> Parser eff" where
  "ObjectParser_new keyToFunc opts =
     Parser_new
       (\<lambda>object. bind_eff (ObjectParser_transform keyToFunc object)
          (\<lambda>st. ret (JObject (frame_picked st))))
       opts"

section \<open>The schema compiler\<close>

text \<open>
  What \<^verbatim>\<open>parse(schema, options)\<close> can be given: a value built by one of the three
  constructors above (\<open>SParser\<close>), a plain function, an array, a plain object, or
  anything else (\<open>SOther\<close>: a number, a string, \<^verbatim>\<open>null\<close>, \<^verbatim>\<open>undefined\<close>, ...).
\<close>

datatype schema =
    SParser Parser
  | SFunction "jsval \<Rightarrow> jsval eff"
  | SArray "schema list"
  | SObject "(string \<times> schema) list"
  | SOther

text \<open>
  \<^verbatim>\<open>schema instanceof Parser\<close> walks the prototype chain of \<^verbatim>\<open>schema\<close> looking for
  \<^verbatim>\<open>Parser.prototype\<close>. The constructor of \<^verbatim>\<open>Parser\<close> does not return the instance:
  it returns \<^verbatim>\<open>new Proxy(this.call.bind(this), { get: ... })\<close>. The handler has the
  \<^verbatim>\<open>get\<close> trap alone, so the Proxy's prototype is its target's, and the target is a
  bound function, whose prototype is \<^verbatim>\<open>Function.prototype\<close>. \<^verbatim>\<open>ArrayParser\<close> and
  \<^verbatim>\<open>ObjectParser\<close> return what \<^verbatim>\<open>super(...)\<close> returned, the same kind of Proxy.
  Hence the chain of every value the constructors build is that of a function.
\<close>

datatype prototype = Parser_prototype | Function_prototype | Array_prototype | Object_prototype

fun prototype_chain :: "schema \<Rightarrow> prototype list" where
  "prototype_chain (SParser p) = [Function_prototype, Object_prototype]"
| "prototype_chain (SFunction f) = [Function_prototype, Object_prototype]"
| "prototype_chain (SArray xs) = [Array_prototype, Object_prototype]"
| "prototype_chain (SObject kvs) = [Object_prototype]"
| "prototype_chain SOther = []"

definition instanceof_Parser :: "schema \<Rightarrow> bool" where
  "instanceof_Parser s = (Parser_prototype \<in> set (prototype_chain s))"

text \<open>
  \<^verbatim>\<open>parse\<close>, the module's export. The tests run in the source's order:
  \<^verbatim>\<open>instanceof Parser\<close>, \<^verbatim>\<open>lodash.isFunction\<close> (true of a plain function and of a
  callable Proxy, which is then wrapped as the function it is: applying it is the
  \<open>call\<close> of the Parser behind it), \<^verbatim>\<open>Array.isArray\<close>, \<^verbatim>\<open>lodash.isPlainObject\<close>.
  Of an array only \<^verbatim>\<open>schema[0]\<close> is read, and \<^verbatim>\<open>schema[0]\<close> of the empty array is
  \<^verbatim>\<open>undefined\<close>, an unknown schema. The nested calls pass no options. \<open>parse_values\<close>
  is the loop of \<^verbatim>\<open>lodash.mapValues(schema, v => parse(v))\<close>, that of
  \<open>mapValues_from\<close>, over the schema's properties in enumeration order.
\<close>

function (sequential) parse :: "schema \<Rightarrow> options \<Rightarrow> Parser eff"
  and parse_values ::
    "(string \<times> schema) list \<Rightarrow> (string \<times> Parser) list \<Rightarrow> (string \<times> Parser) list eff" where
  "parse (SParser p) opts =
     (if instanceof_Parser (SParser p) then ret p else Parser_new (call p) opts)"
| "parse (SFunction f) opts = Parser_new f opts"
| "parse (SArray []) opts = throw UnknownSchemaType"
| "parse (SArray (s # ss)) opts =
     bind_eff (parse s no_options) (\<lambda>p. ArrayParser_new p opts)"
| "parse (SObject kvs) opts =
     bind_eff (parse_values (enumeration kvs) [])
       (\<lambda>keyToFunc. ObjectParser_new keyToFunc opts)"
| "parse SOther opts = throw UnknownSchemaType"
| "parse_values [] result = ret result"
| "parse_values ((key, v) # rest) result =
     bind_eff (parse v no_options) (\<lambda>p. parse_values rest (assignValue result key p))"
  by pat_completeness auto
termination
proof (relation "measure (\<lambda>x. case x of
                   Inl (s, _) \<Rightarrow> size s
                 | Inr (kvs, _) \<Rightarrow> size_list (size_prod (\<lambda>_. 0) size) kvs)")
  fix kvs :: "(string \<times> schema) list" and opts :: options
  let ?g = "size_prod (\<lambda>_. 0) size :: string \<times> schema \<Rightarrow> nat"
  have ins: "size_list ?g (insort_key h x xs) = size_list ?g (x # xs)"
    for h :: "string \<times> schema \<Rightarrow> nat" and x xs
    by (induction xs) simp_all
  have srt: "size_list ?g (sort_key h xs) = size_list ?g xs"
    for h :: "string \<times> schema \<Rightarrow> nat" and xs
    by (induction xs) (simp_all add: ins)
  have split: "size_list ?g (filter P xs) + size_list ?g (filter (\<lambda>x. \<not> P x) xs)
               = size_list ?g xs" for P xs
    by (induction xs) simp_all
  have "size_list ?g (enumeration kvs) = size_list ?g kvs"
    unfolding enumeration_def size_list_append srt by (rule split)
  then show "(Inr (enumeration kvs, []), Inl (SObject kvs, opts))
        \<in> measure (\<lambda>x. case x of
                   Inl (s, _) \<Rightarrow> size s
                 | Inr (kvs, _) \<Rightarrow> size_list (size_prod (\<lambda>_. 0) size) kvs)"
    by simp
qed auto

text \<open>
  An expression that builds a Parser and applies it at once, as in
  \<^verbatim>\<open>parse(f).validate(g)(x)\<close>: the construction runs first, then the call.
\<close>

definition applied :: "Parser eff \<Rightarrow> jsval \<Rightarrow> jsval eff" where
  "applied m x = bind_eff m (\<lambda>p. call p x)"

section \<open>Hex\<close>

text \<open>
  \<^verbatim>\<open>Hex\<close> of \<^verbatim>\<open>src/packages/conflux-web-utils/src/type.js\<close>. Its argument is one of
  the types its documentation lists: \<^verbatim>\<open>null\<close>, a number or a BigNumber (the
  integral ones, modelled by \<open>int\<close>), a string (of ASCII characters), a Buffer (a
  list of bytes), a Date (its \<^verbatim>\<open>valueOf()\<close>, in milliseconds), or any other value,
  which \<^verbatim>\<open>Hex\<close> reads through its rendering as a template literal only (\<open>HOther\<close>
  carries that string).
\<close>

datatype hex_value =
    HNull
  | HNumber int
  | HBigNumber int
  | HString string
  | HBuffer "8 word list"
  | HDate int
  | HOther string

text \<open>\<^verbatim>\<open>Error(`"${value}" do not match hex string`)\<close>.\<close>

datatype hex_error = DoNotMatchHexString string

text \<open>
  \<^verbatim>\<open>Hex.isHex\<close>: the regular expression \<^verbatim>\<open>/^0x([0-9a-f][0-9a-f])*$/\<close>, as a
  recogniser. The expression has no flag, so \<^verbatim>\<open>$\<close> is the end of the string.
\<close>

definition isHexDigit :: "char \<Rightarrow> bool" where
  "isHexDigit c = (c \<in> set ''0123456789abcdef'')"

fun isHexPairs :: "string \<Rightarrow> bool" where
  "isHexPairs [] = True"
| "isHexPairs [c] = False"
| "isHexPairs (c # d # rest) = (isHexDigit c \<and> isHexDigit d \<and> isHexPairs rest)"

definition isHex :: "string \<Rightarrow> bool" where
  "isHex hex = (take 2 hex = ''0x'' \<and> isHexPairs (drop 2 hex))"

text \<open>
  Node's hex codec. \<^verbatim>\<open>Buffer.from(s, 'hex')\<close> decodes two digits (of either case)
  to a byte and stops at the first pair that is not two digits;
  \<^verbatim>\<open>buffer.toString('hex')\<close> writes every byte as two lower-case digits.
\<close>

definition hexDigit :: "nat \<Rightarrow> char" where
  "hexDigit n = ''0123456789abcdef'' ! n"

definition hexValue :: "char \<Rightarrow> nat option" where
  "hexValue c = map_of (zip ''0123456789abcdefABCDEF'' ([0 ..< 16] @ [10 ..< 16])) c"

fun Buffer_from_hex :: "string \<Rightarrow> 8 word list" where
  "Buffer_from_hex (c # d # rest) =
     (case (hexValue c, hexValue d) of
        (Some hi, Some lo) \<Rightarrow> of_nat (16 * hi + lo) # Buffer_from_hex rest
      | _ \<Rightarrow> [])"
| "Buffer_from_hex _ = []"

fun Buffer_toString_hex :: "8 word list \<Rightarrow> string" where
  "Buffer_toString_hex [] = []"
| "Buffer_toString_hex (b # bs) =
     hexDigit (unat b div 16) # hexDigit (unat b mod 16) # Buffer_toString_hex bs"

text \<open>\<^verbatim>\<open>value.toString(16)\<close> of an integral number: a sign and the digits.\<close>

function toString16_nat :: "nat \<Rightarrow> string" where
  "toString16_nat n =
     (if n < 16 then [hexDigit n] else toString16_nat (n div 16) @ [hexDigit (n mod 16)])"
  by pat_completeness auto
termination
  by (relation "measure id") auto

definition toString16 :: "int \<Rightarrow> string" where
  "toString16 i =
     (if i < 0 then CHR ''-'' # toString16_nat (nat (- i)) else toString16_nat (nat i))"

definition toLowerCase :: "string \<Rightarrow> string" where
  "toLowerCase s =
     map (\<lambda>c. if 65 \<le> (of_char c :: nat) \<and> (of_char c :: nat) \<le> 90
              then char_of (of_char c + 32 :: nat) else c) s"

text \<open>
  \<^verbatim>\<open>Hex(value)\<close>, with the tests in the source's order. A number is rendered in base
  16 and a Date by its milliseconds, and \<^verbatim>\<open>Hex\<close> is called again on the result.
\<close>

function Hex :: "hex_value \<Rightarrow> hex_error + string" where
  "Hex HNull = Inr ''0x''"
| "Hex (HNumber n) = Hex (HString (toString16 n))"
| "Hex (HBigNumber n) = Hex (HString (toString16 n))"
| "Hex (HString v) =
     (if isHex v then Inr v
      else
        (let string = toLowerCase v;
             string = (if take 2 string = ''0x'' then string else ''0x'' @ string);
             string = (if length string mod 2 \<noteq> 0 then ''0x0'' @ drop 2 string else string)
         in if \<not> isHex string then Inl (DoNotMatchHexString v) else Inr string))"
| "Hex (HBuffer b) = Inr (''0x'' @ Buffer_toString_hex b)"
| "Hex (HDate ms) = Hex (HNumber ms)"
| "Hex (HOther s) = Hex (HString s)"
  by pat_completeness auto
termination
  by (relation "measure (\<lambda>v. case v of HDate _ \<Rightarrow> 2 | HNumber _ \<Rightarrow> 1 | HBigNumber _ \<Rightarrow> 1
                                | HOther _ \<Rightarrow> 1 | _ \<Rightarrow> 0)") auto

text \<open>\<^verbatim>\<open>Hex.toBuffer(hex)\<close>.\<close>

definition toBuffer :: "string \<Rightarrow> hex_error + 8 word list" where
  "toBuffer hex =
     (if \<not> isHex hex then Inl (DoNotMatchHexString hex)
      else Inr (Buffer_from_hex (drop 2 hex)))"

section \<open>Properties of Parser\<close>

lemma Parser_new_no_options:
  "Parser_new f no_options = (Inr \<lparr>func = f, required = False, default_val = JUndefined\<rparr>, [])"
  by (simp add: Parser_new_def no_options_def ret_def)

lemma call_present: "x \<noteq> JUndefined \<Longrightarrow> call p x = func p x"
  by (simp add: call_def)

lemma call_plain:
  "call \<lparr>func = f, required = False, default_val = JUndefined\<rparr> =
   (\<lambda>x. if x = JUndefined then (Inr JUndefined, []) else f x)"
  by (rule ext) (simp add: call_def ret_def)

text \<open>
  With a cached default, a call on the absent value runs the transform on the cached
  default, which the constructor had obtained by running the transform on the raw one.
\<close>

lemma Parser_new_default:
  "opt_default opts \<noteq> JUndefined \<Longrightarrow> f (opt_default opts) = (Inr d, l) \<Longrightarrow>
   Parser_new f opts = (Inr \<lparr>func = f, required = opt_required opts, default_val = d\<rparr>, l)"
  by (simp add: Parser_new_def bind_eff_def ret_def)

lemma call_absent_cached_default:
  "default_val p \<noteq> JUndefined \<Longrightarrow> call p JUndefined = func p (default_val p)"
  by (simp add: call_def)

lemma applied_built: "applied (Inr q, []) x = call q x"
  by (simp add: applied_def bind_eff_def split: prod.splits)

lemma not_instanceof_Parser: "\<not> instanceof_Parser (SParser p)"
  by (simp add: instanceof_Parser_def)

lemma parse_built_parser: "parse (SParser p) opts = Parser_new (call p) opts"
  by (simp add: not_instanceof_Parser)

lemma parse_values_mapValues:
  "parse_values kvs result = mapValues_from kvs (\<lambda>v key. parse v no_options) result"
  by (induction kvs arbitrary: result) auto

lemma parse_object_mapValues:
  "parse (SObject kvs) opts =
   bind_eff (mapValues kvs (\<lambda>v key. parse v no_options))
     (\<lambda>keyToFunc. ObjectParser_new keyToFunc opts)"
  by (simp add: mapValues_def parse_values_mapValues)

text \<open>
  C4. A Parser with no cached default, applied to the absent value: it throws
  "value is required" when it is required, and otherwise returns the absent value. In
  both cases nothing is evaluated: the record of evaluations is empty, whatever the
  transform is.
\<close>

theorem call_absent_no_default:
  "default_val p = JUndefined \<Longrightarrow>
   call p JUndefined = (if required p then (Inl ValueRequired, []) else (Inr JUndefined, []))"
  by (simp add: call_def throw_def ret_def)

theorem call_absent_no_default_witness:
  "default_val \<lparr>func = (\<lambda>v. (Inl (LeafError ''boom''), [(''f'', v)])), required = True,
      default_val = JUndefined\<rparr> = JUndefined
   \<and> call \<lparr>func = (\<lambda>v. (Inl (LeafError ''boom''), [(''f'', v)])), required = True,
      default_val = JUndefined\<rparr> JUndefined = (Inl ValueRequired, [])"
  using call_absent_no_default
    [of "\<lparr>func = (\<lambda>v. (Inl (LeafError ''boom''), [(''f'', v)])), required = True,
      default_val = JUndefined\<rparr>"]
  by simp

text \<open>
  C9. Each of \<^verbatim>\<open>p.parse(g)\<close>, \<^verbatim>\<open>p.validate(g)\<close> and \<^verbatim>\<open>p.or(g)\<close> builds, without
  evaluating anything, a Parser that is not required and has no default; applied to
  the absent value it returns the absent value and evaluates nothing, neither \<open>g\<close>
  nor the transform of \<open>p\<close>, whatever \<open>p\<close> is (required or with a default).
\<close>

theorem combinators_optional_no_default:
  "(\<exists>q. Parser_parse p g = (Inr q, []) \<and> \<not> required q \<and> default_val q = JUndefined
        \<and> call q JUndefined = (Inr JUndefined, []))
   \<and> (\<exists>q. Parser_validate p g = (Inr q, []) \<and> \<not> required q \<and> default_val q = JUndefined
        \<and> call q JUndefined = (Inr JUndefined, []))
   \<and> (\<exists>q. Parser_or p g = (Inr q, []) \<and> \<not> required q \<and> default_val q = JUndefined
        \<and> call q JUndefined = (Inr JUndefined, []))"
  by (simp add: Parser_parse_def Parser_validate_def Parser_or_def Parser_new_no_options
      call_def ret_def)

text \<open>
  C2, as the code has it: on every input \<open>x\<close> other than the absent value,
  \<^verbatim>\<open>p.or(g)(x)\<close> is \<open>g x\<close> (after the evaluations \<open>p\<close> made before it threw) when
  \<^verbatim>\<open>p(x)\<close> throws, whatever it throws, and it is \<^verbatim>\<open>p(x)\<close> with exactly the
  evaluations of \<^verbatim>\<open>p(x)\<close>, so none of \<open>g\<close>, when \<^verbatim>\<open>p(x)\<close> returns.
\<close>

theorem or_non_absent:
  assumes "x \<noteq> JUndefined"
  shows "(\<forall>e l. call p x = (Inl e, l) \<longrightarrow>
            applied (Parser_or p g) x = (fst (g x), l @ snd (g x)))
       \<and> (\<forall>y l. call p x = (Inr y, l) \<longrightarrow> applied (Parser_or p g) x = (Inr y, l))"
  using assms
  by (simp add: Parser_or_def Parser_new_no_options applied_built call_present catch_def
      split: prod.splits)

theorem or_non_absent_witness:
  "JNumber 0 \<noteq> JUndefined
   \<and> call \<lparr>func = (\<lambda>v. (if v = JNumber 0 then Inl (LeafError ''zero'') else Inr v, [(''f'', v)])),
        required = True, default_val = JUndefined\<rparr> (JNumber 0)
       = (Inl (LeafError ''zero''), [(''f'', JNumber 0)])
   \<and> applied (Parser_or
        \<lparr>func = (\<lambda>v. (if v = JNumber 0 then Inl (LeafError ''zero'') else Inr v, [(''f'', v)])),
          required = True, default_val = JUndefined\<rparr>
        (\<lambda>v. (Inr JNull, [(''g'', v)]))) (JNumber 0)
       = (Inr JNull, [(''f'', JNumber 0), (''g'', JNumber 0)])
   \<and> applied (Parser_or
        \<lparr>func = (\<lambda>v. (if v = JNumber 0 then Inl (LeafError ''zero'') else Inr v, [(''f'', v)])),
          required = True, default_val = JUndefined\<rparr>
        (\<lambda>v. (Inr JNull, [(''g'', v)]))) (JNumber 1)
       = (Inr (JNumber 1), [(''f'', JNumber 1)])"
  using or_non_absent [of "JNumber 0"
      "\<lparr>func = (\<lambda>v. (if v = JNumber 0 then Inl (LeafError ''zero'') else Inr v, [(''f'', v)])),
          required = True, default_val = JUndefined\<rparr>" "(\<lambda>v. (Inr JNull, [(''g'', v)]))"]
    or_non_absent [of "JNumber 1"
      "\<lparr>func = (\<lambda>v. (if v = JNumber 0 then Inl (LeafError ''zero'') else Inr v, [(''f'', v)])),
          required = True, default_val = JUndefined\<rparr>" "(\<lambda>v. (Inr JNull, [(''g'', v)]))"]
  by (simp add: call_def Let_def)

text \<open>
  C2 as stated fails at the absent value: a required \<open>p\<close> with no default throws
  "value is required" there, and \<^verbatim>\<open>p.or(g)\<close> returns the absent value without
  evaluating \<open>g\<close>, where \<open>g\<close> would have returned \<^verbatim>\<open>null\<close>.
\<close>

theorem or_absent_counterexample:
  "call \<lparr>func = (\<lambda>v. (Inr v, [(''f'', v)])), required = True, default_val = JUndefined\<rparr>
      JUndefined = (Inl ValueRequired, [])
   \<and> applied (Parser_or
        \<lparr>func = (\<lambda>v. (Inr v, [(''f'', v)])), required = True, default_val = JUndefined\<rparr>
        (\<lambda>v. (Inr JNull, [(''g'', v)]))) JUndefined
       = (Inr JUndefined, [])
   \<and> applied (Parser_or
        \<lparr>func = (\<lambda>v. (Inr v, [(''f'', v)])), required = True, default_val = JUndefined\<rparr>
        (\<lambda>v. (Inr JNull, [(''g'', v)]))) JUndefined
       \<noteq> (\<lambda>v. (Inr JNull, [(''g'', v)])) JUndefined"
  by (simp add: Parser_or_def Parser_new_no_options applied_built call_def throw_def ret_def)

text \<open>
  C8, as the code has it: on every input \<open>x\<close> other than the absent value on which
  \<open>f\<close> returns \<open>y\<close>, and with a predicate that returns \<open>b\<close> on \<open>y\<close>,
  \<^verbatim>\<open>parse(f).validate(pred)(x)\<close> throws "do not match validator" when \<open>b\<close> is falsy
  and returns \<open>y\<close> otherwise; \<open>f\<close> and then \<open>pred\<close> are each evaluated once.
\<close>

theorem validate_non_absent:
  assumes "x \<noteq> JUndefined" and "f x = (Inr y, l)" and "pred y = (Inr b, l')"
  shows "applied (bind_eff (parse (SFunction f) no_options) (\<lambda>p. Parser_validate p pred)) x
         = (if truthy b then Inr y else Inl NotMatchValidator, l @ l')"
  using assms
  by (simp add: Parser_validate_def Parser_new_no_options applied_def call_def bind_eff_def
      throw_def ret_def)

theorem validate_non_absent_witness:
  "JNumber 2 \<noteq> JUndefined
   \<and> applied (bind_eff (parse (SFunction (\<lambda>v. (Inr v, [(''f'', v)]))) no_options)
        (\<lambda>p. Parser_validate p (\<lambda>v. (Inr (JBool (v = JNumber 1)), [(''pred'', v)]))))
        (JNumber 2)
       = (Inl NotMatchValidator, [(''f'', JNumber 2), (''pred'', JNumber 2)])
   \<and> applied (bind_eff (parse (SFunction (\<lambda>v. (Inr v, [(''f'', v)]))) no_options)
        (\<lambda>p. Parser_validate p (\<lambda>v. (Inr (JBool (v = JNumber 1)), [(''pred'', v)]))))
        (JNumber 1)
       = (Inr (JNumber 1), [(''f'', JNumber 1), (''pred'', JNumber 1)])"
  using validate_non_absent [of "JNumber 2" "\<lambda>v. (Inr v, [(''f'', v)])" "JNumber 2"
      "[(''f'', JNumber 2)]" "\<lambda>v. (Inr (JBool (v = JNumber 1)), [(''pred'', v)])"
      "JBool False" "[(''pred'', JNumber 2)]"]
    validate_non_absent [of "JNumber 1" "\<lambda>v. (Inr v, [(''f'', v)])" "JNumber 1"
      "[(''f'', JNumber 1)]" "\<lambda>v. (Inr (JBool (v = JNumber 1)), [(''pred'', v)])"
      "JBool True" "[(''pred'', JNumber 1)]"]
  by simp

text \<open>
  C8 as stated fails at the absent value: \<open>f\<close> returns 5 there and the predicate is
  false of 5, yet \<^verbatim>\<open>parse(f).validate(pred)\<close> applied to the absent value returns the
  absent value; neither \<open>f\<close> nor the predicate is evaluated.
\<close>

theorem validate_absent_counterexample:
  "(\<lambda>v. (Inr (JBool False), [(''pred'', v)])) (JNumber 5)
       = (Inr (JBool False), [(''pred'', JNumber 5)])
   \<and> \<not> truthy (JBool False)
   \<and> applied (bind_eff (parse (SFunction (\<lambda>v. (Inr (JNumber 5), [(''f'', v)]))) no_options)
        (\<lambda>p. Parser_validate p (\<lambda>v. (Inr (JBool False), [(''pred'', v)])))) JUndefined
       = (Inr JUndefined, [])"
  by (simp add: Parser_validate_def Parser_new_no_options applied_def call_def bind_eff_def
      throw_def ret_def)

text \<open>
  C3 at \<^verbatim>\<open>parse(t, {default: 1})\<close> with \<open>t\<close> the successor function: the constructor
  evaluates \<open>t\<close> on the raw default once and caches 2; applied to the absent value the
  Parser then evaluates \<open>t\<close> again, on the cached 2, and returns 3, not \<open>t 1 = 2\<close>.
\<close>

theorem default_transformed_twice:
  "Parser_new
     (\<lambda>v. (case v of JNumber n \<Rightarrow> Inr (JNumber (n + 1)) | _ \<Rightarrow> Inl (LeafError ''NaN''),
           [(''t'', v)]))
     \<lparr>opt_required = False, opt_default = JNumber 1\<rparr>
   = (Inr \<lparr>func = (\<lambda>v. (case v of JNumber n \<Rightarrow> Inr (JNumber (n + 1))
                               | _ \<Rightarrow> Inl (LeafError ''NaN''), [(''t'', v)])),
            required = False, default_val = JNumber 2\<rparr>,
      [(''t'', JNumber 1)])
   \<and> call \<lparr>func = (\<lambda>v. (case v of JNumber n \<Rightarrow> Inr (JNumber (n + 1))
                               | _ \<Rightarrow> Inl (LeafError ''NaN''), [(''t'', v)])),
            required = False, default_val = JNumber 2\<rparr> JUndefined
     = (Inr (JNumber 3), [(''t'', JNumber 2)])"
  by (simp add: Parser_new_def call_def bind_eff_def ret_def)

section \<open>Properties of the schema compiler\<close>

text \<open>
  C7 at a required Parser \<open>p\<close> with no default: \<^verbatim>\<open>parse(p)\<close> is not \<open>p\<close> but a new
  Parser around \<open>p\<close> that is not required, so that \<^verbatim>\<open>parse(p)(undefined)\<close> returns
  the absent value where \<^verbatim>\<open>p(undefined)\<close> throws "value is required".
\<close>

theorem parse_built_parser_rewrapped:
  "parse (SParser \<lparr>func = (\<lambda>v. (Inr v, [(''f'', v)])), required = True,
                    default_val = JUndefined\<rparr>) no_options
   = (Inr \<lparr>func = call \<lparr>func = (\<lambda>v. (Inr v, [(''f'', v)])), required = True,
                            default_val = JUndefined\<rparr>,
            required = False, default_val = JUndefined\<rparr>, [])
   \<and> call \<lparr>func = (\<lambda>v. (Inr v, [(''f'', v)])), required = True,
            default_val = JUndefined\<rparr> JUndefined = (Inl ValueRequired, [])
   \<and> applied (parse (SParser \<lparr>func = (\<lambda>v. (Inr v, [(''f'', v)])), required = True,
                    default_val = JUndefined\<rparr>) no_options) JUndefined
     = (Inr JUndefined, [])"
  by (simp add: not_instanceof_Parser Parser_new_no_options applied_built)
     (simp add: call_def throw_def ret_def)

section \<open>Properties of ArrayParser\<close>







section \<open>Properties of ObjectParser\<close>

lemma bind_eff_built: "bind_eff (Inr q, []) k = k q"
  by (simp add: bind_eff_def split: prod.splits)

lemma map_of_assignValue: "map_of (assignValue object key v) = (map_of object)(key \<mapsto> v)"
  by (induction object key v rule: assignValue.induct) (auto simp: fun_eq_iff)

lemma hasOwnProperty_map_of: "hasOwnProperty object key \<longleftrightarrow> map_of object key \<noteq> None"
  by (simp add: hasOwnProperty_def map_of_eq_None_iff)

lemma enumeration_single: "enumeration [kv] = [kv]"
  by (simp add: enumeration_def)

lemma set_enumeration: "set (enumeration object) = set object"
  by (auto simp: enumeration_def)

lemma set_keysIn: "set (keysIn (JObject kvs)) = fst ` set kvs"
  by (simp add: keysIn_def set_enumeration)

lemma frame_object_defaults_from: "frame_object (defaults_from props st) = frame_object st"
  by (induction props arbitrary: st) (simp_all add: Let_def)

lemma map_of_defaults_from:
  "map_of (frame_picked (defaults_from props st)) k =
   (if k \<in> set props
       \<and> (get_prop (frame_picked st) k = JUndefined
          \<or> (get_prop (frame_picked st) k = objectProto k \<and> map_of (frame_picked st) k = None))
    then Some (object_get (frame_object st) k) else map_of (frame_picked st) k)"
proof (induction props arbitrary: st)
  case Nil
  then show ?case by simp
next
  case (Cons key props)
  show ?case
    by (auto simp: Cons.IH Let_def map_of_assignValue get_prop_def hasOwnProperty_map_of
        split: option.splits)
qed


lemma parse_object_of_one:
  "parse (SObject [(a, d)]) no_options =
   bind_eff (parse d no_options) (\<lambda>p. ObjectParser_new [(a, p)] no_options)"
  by (simp add: enumeration_single bind_eff_def ret_def split: prod.splits sum.splits)

lemma ObjectParser_transform_one:
  "ObjectParser_transform [(a, p)] (JObject kvs) =
   bind_eff (call p (get_prop kvs a))
     (\<lambda>r. ret (defaults \<lparr>frame_object = JObject kvs, frame_picked = [(a, r)]\<rparr>))"
  by (simp add: ObjectParser_transform_def isPlainObject_def object_get_def mapValues_def
      enumeration_single bind_eff_def ret_def split: prod.splits sum.splits)

lemma call_ObjectParser:
  "applied (ObjectParser_new keyToFunc no_options) (JObject kvs) =
   bind_eff (ObjectParser_transform keyToFunc (JObject kvs))
     (\<lambda>st. ret (JObject (frame_picked st)))"
  by (simp add: ObjectParser_new_def Parser_new_no_options applied_built call_present)

lemma defaults_one:
  fixes a r kvs
  defines "st \<equiv> defaults \<lparr>frame_object = JObject kvs, frame_picked = [(a, r)]\<rparr>"
  assumes keep: "r \<noteq> JUndefined \<or> \<not> hasOwnProperty kvs a"
  shows "frame_object st = JObject kvs"
    and "map_of (frame_picked st) a = Some r"
    and "k \<noteq> a \<Longrightarrow> k \<noteq> ''__proto__'' \<Longrightarrow> map_of (frame_picked st) k = map_of kvs k"
    and "a \<noteq> ''__proto__'' \<Longrightarrow> map_of (frame_picked st) ''__proto__'' = None"
proof -
  show "frame_object st = JObject kvs"
    by (simp add: st_def defaults_def frame_object_defaults_from)
  from keep show "map_of (frame_picked st) a = Some r"
    by (auto simp: st_def defaults_def map_of_defaults_from set_keysIn get_prop_def
        hasOwnProperty_def)
  show "map_of (frame_picked st) k = map_of kvs k" if "k \<noteq> a" "k \<noteq> ''__proto__''"
  proof (cases "map_of kvs k")
    case None
    then have "k \<notin> fst ` set kvs" by (simp add: map_of_eq_None_iff)
    with that None show ?thesis
      by (simp add: st_def defaults_def map_of_defaults_from set_keysIn)
  next
    case (Some u)
    then have "k \<in> fst ` set kvs" by (metis map_of_eq_None_iff option.distinct(1))
    with that Some show ?thesis
      by (simp add: st_def defaults_def map_of_defaults_from set_keysIn get_prop_def
          object_get_def)
  qed
  show "map_of (frame_picked st) ''__proto__'' = None" if "a \<noteq> ''__proto__''"
    using that
    by (simp add: st_def defaults_def map_of_defaults_from set_keysIn get_prop_def
        objectProto_def)
qed

text \<open>
  C6, as the code has it. \<^verbatim>\<open>parse({a: f})\<close> applied to a plain object that owns
  \<open>a\<close> with a value \<open>v\<close>, where \<open>f v\<close> returns a value \<open>w\<close> that is not absent:
  \<open>f\<close> is evaluated once, on \<open>v\<close>, and the result is the object \<^verbatim>\<open>picked\<close> of the
  transform, in which \<open>a\<close> holds \<open>w\<close> and every other key but \<^verbatim>\<open>__proto__\<close> is owned
  exactly when the input owns it, with the input's value. An own \<^verbatim>\<open>__proto__\<close> of the
  input is not in the result. When the transform returns, its argument is the object it
  was given, with the same properties: all writes went to \<^verbatim>\<open>picked\<close>.
\<close>

theorem object_schema_declared_and_undeclared:
  assumes "map_of kvs a = Some v" and "v \<noteq> JUndefined" and "f v = (Inr w, l)"
    and "w \<noteq> JUndefined"
  shows "\<exists>p st. parse (SFunction f) no_options = (Inr p, [])
          \<and> ObjectParser_transform [(a, p)] (JObject kvs) = (Inr st, l)
          \<and> applied (parse (SObject [(a, SFunction f)]) no_options) (JObject kvs)
            = (Inr (JObject (frame_picked st)), l)
          \<and> map_of (frame_picked st) a = Some w
          \<and> (\<forall>k. k \<noteq> a \<longrightarrow> k \<noteq> ''__proto__'' \<longrightarrow> map_of (frame_picked st) k = map_of kvs k)
          \<and> (a \<noteq> ''__proto__'' \<longrightarrow> map_of (frame_picked st) ''__proto__'' = None)
          \<and> frame_object st = JObject kvs"
proof -
  let ?p = "\<lparr>func = f, required = False, default_val = JUndefined\<rparr>"
  let ?st = "defaults \<lparr>frame_object = JObject kvs, frame_picked = [(a, w)]\<rparr>"
  have p: "parse (SFunction f) no_options = (Inr ?p, [])"
    by (simp add: Parser_new_no_options)
  from assms have elt: "call ?p (get_prop kvs a) = (Inr w, l)"
    by (simp add: call_plain get_prop_def)
  have tr: "ObjectParser_transform [(a, ?p)] (JObject kvs) = (Inr ?st, l)"
    unfolding ObjectParser_transform_one elt by (simp add: bind_eff_def ret_def)
  have run: "applied (parse (SObject [(a, SFunction f)]) no_options) (JObject kvs)
        = (Inr (JObject (frame_picked ?st)), l)"
    unfolding parse_object_of_one p bind_eff_built call_ObjectParser tr
    by (simp add: bind_eff_def ret_def)
  from assms(4) have keep: "w \<noteq> JUndefined \<or> \<not> hasOwnProperty kvs a" by simp
  from p tr run defaults_one [OF keep] show ?thesis
    by blast
qed

lemma parse_optional_field:
  assumes "d = SFunction f \<or> d = SParser p \<and> \<not> required p \<and> default_val p = JUndefined"
  shows "\<exists>q. parse d no_options = (Inr q, []) \<and> call q JUndefined = (Inr JUndefined, [])"
  using assms
  by (auto simp: Parser_new_no_options not_instanceof_Parser call_def ret_def)

text \<open>
  C1, as the code has it. \<^verbatim>\<open>parse({a: d})\<close>, with \<open>d\<close> a plain function or a Parser
  that is not required and has no default, and \<open>a\<close> not the name of a member of
  \<^verbatim>\<open>Object.prototype\<close>, applied to a plain object that does not own \<open>a\<close>: nothing
  is evaluated; the result does own the key \<open>a\<close>, holding the absent value; every
  other key but \<^verbatim>\<open>__proto__\<close> is owned exactly when the input owns it, with the
  input's value; and the result does not own \<^verbatim>\<open>__proto__\<close>.
\<close>

theorem object_schema_optional_absent:
  assumes "d = SFunction f \<or> d = SParser p \<and> \<not> required p \<and> default_val p = JUndefined"
    and "\<not> hasOwnProperty kvs a"
    and "a \<noteq> ''__proto__''" and "a \<notin> set objectProto_functions"
  shows "\<exists>out. applied (parse (SObject [(a, d)]) no_options) (JObject kvs)
               = (Inr (JObject out), [])
             \<and> hasOwnProperty out a \<and> map_of out a = Some JUndefined
             \<and> (\<forall>k. k \<noteq> a \<longrightarrow> k \<noteq> ''__proto__'' \<longrightarrow> map_of out k = map_of kvs k)
             \<and> map_of out ''__proto__'' = None"
proof -
  let ?st = "defaults \<lparr>frame_object = JObject kvs, frame_picked = [(a, JUndefined)]\<rparr>"
  from parse_optional_field [OF assms(1)] obtain q
    where q: "parse d no_options = (Inr q, [])" "call q JUndefined = (Inr JUndefined, [])"
    by blast
  from assms(2,3,4) have absent: "get_prop kvs a = JUndefined"
    by (simp add: get_prop_def objectProto_def hasOwnProperty_map_of)
  have run: "applied (parse (SObject [(a, d)]) no_options) (JObject kvs)
        = (Inr (JObject (frame_picked ?st)), [])"
    unfolding parse_object_of_one q bind_eff_built call_ObjectParser
      ObjectParser_transform_one absent
    by (simp add: bind_eff_def ret_def)
  from assms(2) have keep: "JUndefined \<noteq> JUndefined \<or> \<not> hasOwnProperty kvs a" by simp
  note D = defaults_one [OF keep]
  from D(2) have own: "hasOwnProperty (frame_picked ?st) a"
    by (simp add: hasOwnProperty_map_of)
  from run own D(2) D(3) D(4) [OF assms(3)] show ?thesis
    by blast
qed


lemmas object_eval =
  ObjectParser_transform_one defaults_def keysIn_def enumeration_def isArrayIndex_def
  get_prop_def objectProto_def objectProto_functions_def hasOwnProperty_def object_get_def
  Let_def bind_eff_def ret_def

theorem object_schema_declared_and_undeclared_witness:
  "(\<exists>p st. parse (SFunction 
         (\<lambda>v. (case v of JNumber n \<Rightarrow> Inr (JNumber (n + 1)) | _ \<Rightarrow> Inl (LeafError ''NaN''),
               [(''f'', v)]))) no_options = (Inr p, [])
      \<and> ObjectParser_transform [(''a'', p)] (JObject [(''a'', JNumber 1), (''b'', JNumber 2)])
        = (Inr st, [(''f'', JNumber 1)])
      \<and> applied (parse (SObject [(''a'', SFunction 
         (\<lambda>v. (case v of JNumber n \<Rightarrow> Inr (JNumber (n + 1)) | _ \<Rightarrow> Inl (LeafError ''NaN''),
               [(''f'', v)])))]) no_options)
          (JObject [(''a'', JNumber 1), (''b'', JNumber 2)])
        = (Inr (JObject (frame_picked st)), [(''f'', JNumber 1)])
      \<and> map_of (frame_picked st) ''a'' = Some (JNumber 2)
      \<and> (\<forall>k. k \<noteq> ''a'' \<longrightarrow> k \<noteq> ''__proto__'' \<longrightarrow>
            map_of (frame_picked st) k = map_of [(''a'', JNumber 1), (''b'', JNumber 2)] k)
      \<and> (''a'' \<noteq> ''__proto__'' \<longrightarrow> map_of (frame_picked st) ''__proto__'' = None)
      \<and> frame_object st = JObject [(''a'', JNumber 1), (''b'', JNumber 2)])
   \<and> applied (parse (SObject [(''a'', SFunction 
         (\<lambda>v. (case v of JNumber n \<Rightarrow> Inr (JNumber (n + 1)) | _ \<Rightarrow> Inl (LeafError ''NaN''),
               [(''f'', v)])))]) no_options)
         (JObject [(''a'', JNumber 1), (''b'', JNumber 2)])
       = (Inr (JObject [(''a'', JNumber 2), (''b'', JNumber 2)]), [(''f'', JNumber 1)])"
proof (rule conjI)
  show "\<exists>p st. parse (SFunction 
         (\<lambda>v. (case v of JNumber n \<Rightarrow> Inr (JNumber (n + 1)) | _ \<Rightarrow> Inl (LeafError ''NaN''),
               [(''f'', v)]))) no_options = (Inr p, [])
      \<and> ObjectParser_transform [(''a'', p)] (JObject [(''a'', JNumber 1), (''b'', JNumber 2)])
        = (Inr st, [(''f'', JNumber 1)])
      \<and> applied (parse (SObject [(''a'', SFunction 
         (\<lambda>v. (case v of JNumber n \<Rightarrow> Inr (JNumber (n + 1)) | _ \<Rightarrow> Inl (LeafError ''NaN''),
               [(''f'', v)])))]) no_options)
          (JObject [(''a'', JNumber 1), (''b'', JNumber 2)])
        = (Inr (JObject (frame_picked st)), [(''f'', JNumber 1)])
      \<and> map_of (frame_picked st) ''a'' = Some (JNumber 2)
      \<and> (\<forall>k. k \<noteq> ''a'' \<longrightarrow> k \<noteq> ''__proto__'' \<longrightarrow>
            map_of (frame_picked st) k = map_of [(''a'', JNumber 1), (''b'', JNumber 2)] k)
      \<and> (''a'' \<noteq> ''__proto__'' \<longrightarrow> map_of (frame_picked st) ''__proto__'' = None)
      \<and> frame_object st = JObject [(''a'', JNumber 1), (''b'', JNumber 2)]"
    by (rule object_schema_declared_and_undeclared [where v = "JNumber 1"]) simp_all
  show "applied (parse (SObject [(''a'', SFunction 
         (\<lambda>v. (case v of JNumber n \<Rightarrow> Inr (JNumber (n + 1)) | _ \<Rightarrow> Inl (LeafError ''NaN''),
               [(''f'', v)])))]) no_options)
         (JObject [(''a'', JNumber 1), (''b'', JNumber 2)])
       = (Inr (JObject [(''a'', JNumber 2), (''b'', JNumber 2)]), [(''f'', JNumber 1)])"
    unfolding parse_object_of_one
    by (simp add: Parser_new_no_options bind_eff_built call_ObjectParser call_plain
        ObjectParser_transform_one get_prop_def objectProto_def objectProto_functions_def
        bind_eff_def ret_def)
       (simp add: object_eval)
qed

text \<open>
  C6 as stated fails at schema \<^verbatim>\<open>{a: f}\<close> and the input
  \<^verbatim>\<open>JSON.parse('{"a": 1, "__proto__": 5}')\<close>: the input owns the undeclared field
  \<^verbatim>\<open>__proto__\<close>, and the result, \<^verbatim>\<open>{a: 2}\<close>, does not.
\<close>

theorem object_schema_proto_field_counterexample:
  "applied (parse (SObject [(''a'', SFunction 
         (\<lambda>v. (case v of JNumber n \<Rightarrow> Inr (JNumber (n + 1)) | _ \<Rightarrow> Inl (LeafError ''NaN''),
               [(''f'', v)])))]) no_options)
     (JObject [(''a'', JNumber 1), (''__proto__'', JNumber 5)])
   = (Inr (JObject [(''a'', JNumber 2)]), [(''f'', JNumber 1)])
   \<and> hasOwnProperty [(''a'', JNumber 1), (''__proto__'', JNumber 5)] ''__proto__''
   \<and> \<not> hasOwnProperty [(''a'', JNumber 2)] ''__proto__''"
  unfolding parse_object_of_one
  by (simp add: Parser_new_no_options bind_eff_built call_ObjectParser call_plain
      ObjectParser_transform_one get_prop_def objectProto_def objectProto_functions_def
      bind_eff_def ret_def)
     (simp add: object_eval)

theorem object_schema_optional_absent_witness:
  "\<exists>out. applied (parse (SObject [(''a'', SFunction (\<lambda>v. (Inr v, [(''f'', v)])))]) no_options)
         (JObject [(''b'', JNumber 2)]) = (Inr (JObject out), [])
     \<and> hasOwnProperty out ''a'' \<and> map_of out ''a'' = Some JUndefined
     \<and> (\<forall>k. k \<noteq> ''a'' \<longrightarrow> k \<noteq> ''__proto__'' \<longrightarrow> map_of out k = map_of [(''b'', JNumber 2)] k)
     \<and> map_of out ''__proto__'' = None"
  by (rule object_schema_optional_absent [where f = "\<lambda>v. (Inr v, [(''f'', v)])"
        and p = "\<lparr>func = (\<lambda>v. (Inr v, [])), required = False, default_val = JUndefined\<rparr>"])
     (simp_all add: hasOwnProperty_def objectProto_functions_def)

text \<open>
  C1 as stated fails at schema \<^verbatim>\<open>{a: f}\<close> and input \<^verbatim>\<open>{b: 2}\<close>: the result is
  \<^verbatim>\<open>{a: undefined, b: 2}\<close>, which owns \<open>a\<close> and so is not the input.
\<close>

theorem object_schema_optional_absent_counterexample:
  "applied (parse (SObject [(''a'', SFunction (\<lambda>v. (Inr v, [(''f'', v)])))]) no_options)
     (JObject [(''b'', JNumber 2)])
   = (Inr (JObject [(''a'', JUndefined), (''b'', JNumber 2)]), [])
   \<and> hasOwnProperty [(''a'', JUndefined), (''b'', JNumber 2)] ''a''
   \<and> JObject [(''a'', JUndefined), (''b'', JNumber 2)] \<noteq> JObject [(''b'', JNumber 2)]"
  unfolding parse_object_of_one
  by (simp add: Parser_new_no_options bind_eff_built call_ObjectParser call_plain
      ObjectParser_transform_one get_prop_def objectProto_def objectProto_functions_def
      bind_eff_def ret_def)
     (simp add: object_eval)

section \<open>Properties of Hex\<close>

lemma hexDigits_roundtrip:
  "list_all (\<lambda>c. case hexValue c of Some n \<Rightarrow> n < 16 \<and> hexDigit n = c | None \<Rightarrow> False)
     ''0123456789abcdef''"
  by (simp add: hexValue_def hexDigit_def upt_rec)

lemma hexDigit_roundtrip:
  assumes "isHexDigit c"
  shows "\<exists>n<16. hexValue c = Some n \<and> hexDigit n = c"
proof -
  from assms hexDigits_roundtrip
  have "case hexValue c of Some n \<Rightarrow> n < 16 \<and> hexDigit n = c | None \<Rightarrow> False"
    unfolding isHexDigit_def list_all_iff by blast
  then show ?thesis
    by (cases "hexValue c") simp_all
qed

lemma byte_of_digits:
  assumes "hi < 16" and "lo < 16"
  shows "unat (of_nat (16 * hi + lo) :: 8 word) div 16 = hi"
    and "unat (of_nat (16 * hi + lo) :: 8 word) mod 16 = lo"
proof -
  from assms have "16 * hi + lo < 2 ^ LENGTH(8)" by simp
  then have "unat (of_nat (16 * hi + lo) :: 8 word) = 16 * hi + lo"
    by (simp only: unat_of_nat mod_less)
  with assms show "unat (of_nat (16 * hi + lo) :: 8 word) div 16 = hi"
    and "unat (of_nat (16 * hi + lo) :: 8 word) mod 16 = lo"
    by simp_all
qed

lemma Buffer_from_hex_pair:
  "hexValue c = Some hi \<Longrightarrow> hexValue d = Some lo \<Longrightarrow>
   Buffer_toString_hex (Buffer_from_hex (c # d # rest)) =
   hexDigit (unat (of_nat (16 * hi + lo) :: 8 word) div 16)
   # hexDigit (unat (of_nat (16 * hi + lo) :: 8 word) mod 16)
   # Buffer_toString_hex (Buffer_from_hex rest)"
  by (simp del: of_nat_add of_nat_mult)

lemma Buffer_hex_roundtrip:
  "isHexPairs s \<Longrightarrow> Buffer_toString_hex (Buffer_from_hex s) = s"
proof (induction s rule: isHexPairs.induct)
  case 1
  then show ?case by simp
next
  case (2 c)
  then show ?case by simp
next
  case (3 c d rest)
  from 3 obtain hi lo where "hi < 16" "hexValue c = Some hi" "hexDigit hi = c"
    and "lo < 16" "hexValue d = Some lo" "hexDigit lo = d"
    using hexDigit_roundtrip by (metis isHexPairs.simps(3))
  with 3 show ?case
    by (simp only: Buffer_from_hex_pair byte_of_digits isHexPairs.simps)
qed

text \<open>
  C10. On a string \<open>h\<close> that \<^verbatim>\<open>Hex.isHex\<close> accepts, \<^verbatim>\<open>Hex(h)\<close> returns \<open>h\<close>
  itself, \<^verbatim>\<open>Hex.toBuffer(h)\<close> returns a Buffer, and \<^verbatim>\<open>Hex\<close> of that Buffer is
  \<open>h\<close> again.
\<close>

theorem Hex_canonical_identity_roundtrip:
  assumes "isHex h"
  shows "Hex (HString h) = Inr h
       \<and> (\<exists>b. toBuffer h = Inr b \<and> Hex (HBuffer b) = Inr h)"
proof -
  from assms have "''0x'' @ drop 2 h = h"
    unfolding isHex_def by (metis append_take_drop_id)
  with assms show ?thesis
    by (simp add: toBuffer_def Buffer_hex_roundtrip isHex_def)
qed

theorem Hex_canonical_identity_roundtrip_witness:
  "isHex ''0x0102ff''
   \<and> Hex (HString ''0x0102ff'') = Inr ''0x0102ff''
   \<and> (\<exists>b. toBuffer ''0x0102ff'' = Inr b \<and> Hex (HBuffer b) = Inr ''0x0102ff'')
   \<and> toBuffer ''0x0102ff'' = Inr [1, 2, 255]"
proof -
  have h: "isHex ''0x0102ff''"
    by (simp add: isHex_def isHexDigit_def)
  have b: "toBuffer ''0x0102ff'' = Inr [1, 2, 255]"
    by (simp add: toBuffer_def h hexValue_def upt_rec)
  from h b Hex_canonical_identity_roundtrip [OF h] show ?thesis
    by (intro conjI) simp_all
qed

end
